theory Spec2Isabelle
  imports Complex_Main "HOL-Library.AList" "HOL-Library.Sublist"
begin

section \<open>Python values used by the benchmark code\<close>

text \<open>
  A Python \<open>str\<close> is modelled as the list of its code points, for code points below 256
  (one \<open>char\<close> each). A Python \<open>dict\<close> is modelled as the list of its items in insertion
  order; assigning \<open>d[k] = v\<close> is \<open>AList.update k v d\<close>, which replaces the value of an
  existing key in place and appends a new key at the end, as Python does.
\<close>

datatype error = KeyError | ValueError | AssertionError

type_synonym ('k, 'v) dict = "('k \<times> 'v) list"

text \<open>The test \<open>x in s\<close> on two strings: \<open>x\<close> occurs in \<open>s\<close> as a contiguous run.\<close>

fun starts_with :: "string \<Rightarrow> string \<Rightarrow> bool" where
  "starts_with s [] = True"
| "starts_with [] (p # ps) = False"
| "starts_with (c # cs) (p # ps) = (c = p \<and> starts_with cs ps)"

fun str_in :: "string \<Rightarrow> string \<Rightarrow> bool" where
  "str_in x [] = (x = [])"
| "str_in x (c # cs) = (starts_with (c # cs) x \<or> str_in x cs)"

text \<open>\<open>sep.join(xs)\<close>.\<close>

fun join :: "string \<Rightarrow> string list \<Rightarrow> string" where
  "join sep [] = []"
| "join sep [x] = x"
| "join sep (x # y # ys) = x @ sep @ join sep (y # ys)"

definition hex_digit :: "nat \<Rightarrow> char" where
  "hex_digit n = ''0123456789abcdef'' ! (n mod 16)"

definition hex2 :: "char \<Rightarrow> string" where
  "hex2 c = [hex_digit (of_char c div 16), hex_digit (of_char c)]"

text \<open>
  \<open>repr\<close> of a string, as the f-string \<open>{error_string_search}\<close> applies it to every
  key of the dict: single quotes, unless the text has a single quote and no double quote;
  the quote and the backslash escaped; tab, newline and carriage return by letter; other
  control and non-printable code points as \<open>\xNN\<close>.
\<close>

definition repr_quote :: "string \<Rightarrow> char" where
  "repr_quote s = (if CHR 0x27 \<in> set s \<and> CHR 0x22 \<notin> set s then CHR 0x22 else CHR 0x27)"

definition printable :: "char \<Rightarrow> bool" where
  "printable c = (let n = (of_char c :: nat) in
     (0x20 \<le> n \<and> n < 0x7F) \<or> (0xA1 \<le> n \<and> n \<noteq> 0xAD))"

definition repr_char :: "char \<Rightarrow> char \<Rightarrow> string" where
  "repr_char q c =
     (if c = q \<or> c = CHR 0x5C then [CHR 0x5C, c]
      else if c = CHR 0x09 then [CHR 0x5C, CHR ''t'']
      else if c = CHR 0x0A then [CHR 0x5C, CHR ''n'']
      else if c = CHR 0x0D then [CHR 0x5C, CHR ''r'']
      else if printable c then [c]
      else [CHR 0x5C, CHR ''x''] @ hex2 c)"

definition repr_str :: "string \<Rightarrow> string" where
  "repr_str s = (let q = repr_quote s in [q] @ concat (map (repr_char q) s) @ [q])"

definition repr_bool :: "bool \<Rightarrow> string" where
  "repr_bool b = (if b then ''True'' else ''False'')"

definition repr_item :: "string \<times> bool \<Rightarrow> string" where
  "repr_item kv = repr_str (fst kv) @ '': '' @ repr_bool (snd kv)"

definition repr_dict :: "(string, bool) dict \<Rightarrow> string" where
  "repr_dict d = ''{'' @ join '', '' (map repr_item d) @ ''}''"

text \<open>
  \<open>json.dumps(d, indent=2)\<close> for a dict from strings to booleans: the empty dict is
  \<open>{}\<close>; otherwise one item per line, indented by two spaces and separated by commas.
  Keys are written between double quotes, with the double quote, the backslash and the
  control characters escaped and every code point outside the printable ASCII range as
  \<open>\u00NN\<close>.
\<close>

definition json_char :: "char \<Rightarrow> string" where
  "json_char c =
     (if c = CHR 0x22 then [CHR 0x5C, CHR 0x22]
      else if c = CHR 0x5C then [CHR 0x5C, CHR 0x5C]
      else if c = CHR 0x0A then [CHR 0x5C, CHR ''n'']
      else if c = CHR 0x0D then [CHR 0x5C, CHR ''r'']
      else if c = CHR 0x09 then [CHR 0x5C, CHR ''t'']
      else if c = CHR 0x08 then [CHR 0x5C, CHR ''b'']
      else if c = CHR 0x0C then [CHR 0x5C, CHR ''f'']
      else if (0x20::nat) \<le> of_char c \<and> (of_char c :: nat) \<le> 0x7E then [c]
      else [CHR 0x5C, CHR ''u'', CHR ''0'', CHR ''0''] @ hex2 c)"

definition json_str :: "string \<Rightarrow> string" where
  "json_str s = [CHR 0x22] @ concat (map json_char s) @ [CHR 0x22]"

definition json_bool :: "bool \<Rightarrow> string" where
  "json_bool b = (if b then ''true'' else ''false'')"

definition json_item :: "string \<times> bool \<Rightarrow> string" where
  "json_item kv = json_str (fst kv) @ '': '' @ json_bool (snd kv)"

definition json_dumps :: "(string, bool) dict \<Rightarrow> string" where
  "json_dumps d =
     (if d = [] then ''{}''
      else ''{'' @ [CHR 0x0A] @ ''  '' @ join ('','' @ [CHR 0x0A] @ ''  '') (map json_item d)
           @ [CHR 0x0A] @ ''}'')"

section \<open>The scorer\<close>

text \<open>
  The four failure markers of the SWE-bench harness (\<open>swebench.harness.constants\<close>) and
  the table of output parsers (\<open>swebench.harness.log_parsers\<close>) are imported from outside
  the repository: they are parameters of the model. A parser maps the captured stdout to
  the dict of test identifier and verdict, or raises.
\<close>

record constants =
  APPLY_PATCH_FAIL :: string
  RESET_FAILED :: string
  TESTS_ERROR :: string
  TESTS_TIMEOUT :: string

type_synonym parser = "string \<Rightarrow> error + (string, string) dict"

text \<open>
  The sample metadata the scorer and the script generators read. \<open>PASS_TO_PASS\<close> and
  \<open>FAIL_TO_PASS\<close> are the instance's collections of test identifiers.
\<close>

record metadata =
  base_commit :: string
  test_patch :: string
  version :: string
  repo :: string
  PASS_TO_PASS :: "string list"
  FAIL_TO_PASS :: "string list"

record score =
  val :: real
  explanation :: string
  model_patch :: string

text \<open>
  The dict comprehension of lines 124 to 132: every marker mapped to whether it occurs in
  the captured stdout.
\<close>

definition signatures :: "constants \<Rightarrow> string list" where
  "signatures c =
     [APPLY_PATCH_FAIL c, RESET_FAILED c, TESTS_ERROR c, TESTS_TIMEOUT c,
      ''Failed to reset task environment'']"

definition error_string_search :: "constants \<Rightarrow> string \<Rightarrow> (string, bool) dict" where
  "error_string_search c out =
     foldl (\<lambda>d x. AList.update x (str_in x out) d) [] (signatures c)"

text \<open>\<open>any(d.values())\<close> and \<open>all(d.values())\<close>.\<close>

definition any_values :: "('k, bool) dict \<Rightarrow> bool" where
  "any_values d = list_ex snd d"

definition all_values :: "('k, bool) dict \<Rightarrow> bool" where
  "all_values d = list_all snd d"

text \<open>
  The loop of lines 146 to 153 over the items of the parsed outcomes: a test whose
  identifier is in \<open>PASS_TO_PASS\<close> goes to the first dict, every other test to the second.
\<close>

fun partition_results ::
  "string list \<Rightarrow> (string, string) dict \<Rightarrow> (string, bool) dict \<times> (string, bool) dict
     \<Rightarrow> (string, bool) dict \<times> (string, bool) dict" where
  "partition_results p2p [] (pass_to_pass_results, fail_to_pass_results) =
     (pass_to_pass_results, fail_to_pass_results)"
| "partition_results p2p ((k, v) # rest) (pass_to_pass_results, fail_to_pass_results) =
     (let has_passed = (''PASSED'' = v) in
      if k \<in> set p2p
      then partition_results p2p rest
             (AList.update k has_passed pass_to_pass_results, fail_to_pass_results)
      else partition_results p2p rest
             (pass_to_pass_results, AList.update k has_passed fail_to_pass_results))"

text \<open>
  Line 156: both dicts rebuilt from their items sorted by the boolean (\<open>sorted\<close> is
  stable, and so is \<open>sort_key\<close>), the failed tests first.
\<close>

definition partitions :: "metadata \<Rightarrow> (string, string) dict
    \<Rightarrow> (string, bool) dict \<times> (string, bool) dict" where
  "partitions md test_outputs =
     (let (pass_to_pass_results, fail_to_pass_results) =
            partition_results (PASS_TO_PASS md) test_outputs ([], [])
      in (sort_key snd pass_to_pass_results, sort_key snd fail_to_pass_results))"

text \<open>
  For comparison, a partition as the specification words it: the parsed outcomes whose
  identifier is in the given set of the instance, each with whether its verdict is PASSED.
  This definition follows the specification, not the code.
\<close>

definition spec_partition :: "string list \<Rightarrow> (string, string) dict \<Rightarrow> (string, bool) dict" where
  "spec_partition ids test_outputs =
     map (\<lambda>(k, v). (k, ''PASSED'' = v)) (filter (\<lambda>(k, v). k \<in> set ids) test_outputs)"

definition partition_explanation :: "(string, bool) dict \<Rightarrow> (string, bool) dict \<Rightarrow> string" where
  "partition_explanation pass_to_pass_results fail_to_pass_results =
     ''PASS_TO_PASS:'' @ [CHR 0x0A, CHR 0x0A] @ json_dumps pass_to_pass_results
     @ [CHR 0x0A, CHR 0x0A] @ ''FAIL_TO_PASS:'' @ [CHR 0x0A, CHR 0x0A]
     @ json_dumps fail_to_pass_results @ [CHR 0x0A, CHR 0x0A]"

definition failure_explanation :: "(string, bool) dict \<Rightarrow> string \<Rightarrow> string" where
  "failure_explanation search out =
     ''The tests did not run correctly. Output from searching for error strings:''
     @ [CHR 0x0A, CHR 0x0A] @ repr_dict search @ [CHR 0x0A, CHR 0x0A]
     @ ''Output from tests:'' @ [CHR 0x0A, CHR 0x0A] @ out"

text \<open>
  Lines 124 to 165 of \<open>swebench_scorer\<close>: the score of the captured stdout of the eval
  script (\<open>out\<close>), with the stdout of the command that prints the agent's patch
  (\<open>agent_patch\<close>). Looking the repository up in the parser table raises \<open>KeyError\<close> when
  it is absent, and an exception of the parser propagates.
\<close>

definition score_eval_output ::
  "constants \<Rightarrow> (string \<rightharpoonup> parser) \<Rightarrow> metadata \<Rightarrow> string \<Rightarrow> string \<Rightarrow> error + score" where
  "score_eval_output c MAP_REPO_TO_PARSER md agent_patch out =
     (let search = error_string_search c out in
      if any_values search
      then Inr \<lparr>val = 0, explanation = failure_explanation search out,
                model_patch = agent_patch\<rparr>
      else
        (case MAP_REPO_TO_PARSER (repo md) of
           None \<Rightarrow> Inl KeyError
         | Some test_output_parser \<Rightarrow>
             (case test_output_parser out of
                Inl e \<Rightarrow> Inl e
              | Inr test_outputs \<Rightarrow>
                  (let (pass_to_pass_results, fail_to_pass_results) = partitions md test_outputs
                   in Inr \<lparr>val = (if all_values pass_to_pass_results
                                      \<and> all_values fail_to_pass_results then 1 else 0),
                            explanation = partition_explanation pass_to_pass_results
                                            fail_to_pass_results,
                            model_patch = agent_patch\<rparr>))))"

section \<open>The image mapping and the compose files\<close>

text \<open>
  The file \<open>sample_to_image.json\<close> holds one JSON object: instance identifier to an
  object from environment commit to image name. The model keeps its parsed content, or
  \<open>None\<close> when the file does not exist, and the other files of the compose directory
  by path.
\<close>

type_synonym store = "(string, (string, string) dict) dict"

record files =
  sample_to_image_json :: "store option"
  yaml_files :: "string \<rightharpoonup> string"

record swebench_instance =
  instance_id :: string
  environment_setup_commit :: string

record test_spec =
  env_image_key :: string

text \<open>
  Lines 29 to 34 of \<open>build_docker_images\<close>, the body of the loop after the assertion: the
  test on the environment commit and both of its branches are nested under the test that
  the instance identifier is new.
\<close>

definition record_entry :: "store \<Rightarrow> string \<Rightarrow> string \<Rightarrow> string \<Rightarrow> error + store" where
  "record_entry environment_name_mapping iid commit image_name =
     (if iid \<notin> fst ` set environment_name_mapping then
        (let m = AList.update iid [] environment_name_mapping in
         case map_of m iid of
           None \<Rightarrow> Inl KeyError
         | Some inner \<Rightarrow>
             if commit \<in> fst ` set inner
             then (if map_of inner commit = Some image_name then Inr m else Inl AssertionError)
             else Inr (AList.update iid (AList.update commit image_name inner) m))
      else Inr environment_name_mapping)"

text \<open>
  The loop of lines 26 to 34 over \<open>zip(test_specs, swebench_dataset)\<close>; \<open>images\<close> is what
  \<open>docker_client.images.list()\<close> holds. A failed assertion ends the function.
\<close>

fun record_all :: "string list \<Rightarrow> (test_spec \<times> swebench_instance) list \<Rightarrow> store \<Rightarrow> error + store" where
  "record_all images [] environment_name_mapping = Inr environment_name_mapping"
| "record_all images ((spec, inst) # rest) environment_name_mapping =
     (if env_image_key spec \<notin> set images then Inl AssertionError
      else case record_entry environment_name_mapping (instance_id inst)
                  (environment_setup_commit inst) (env_image_key spec) of
             Inl e \<Rightarrow> Inl e
           | Inr m \<Rightarrow> record_all images rest m)"

text \<open>
  \<open>build_docker_images\<close> from line 24 on: the mapping is loaded from the file (empty when
  there is none), extended by the loop and written back. The dataset, its test
  specifications and the images built come from the SWE-bench harness and are parameters.
\<close>

definition build_docker_images ::
  "string list \<Rightarrow> test_spec list \<Rightarrow> swebench_instance list \<Rightarrow> files \<Rightarrow> error + files" where
  "build_docker_images images test_specs swebench_dataset fs =
     (let environment_name_mapping =
            (case sample_to_image_json fs of None \<Rightarrow> [] | Some m \<Rightarrow> m)
      in case record_all images (zip test_specs swebench_dataset) environment_name_mapping of
           Inl e \<Rightarrow> Inl e
         | Inr m \<Rightarrow> Inr (fs\<lparr>sample_to_image_json := Some m\<rparr>))"

text \<open>Lines 74 to 81 of \<open>get_compose_file\<close>: the image recorded for an instance and commit.\<close>

definition resolve_image :: "files \<Rightarrow> string \<Rightarrow> string \<Rightarrow> error + string" where
  "resolve_image fs iid environment_commit_id =
     (case sample_to_image_json fs of
        None \<Rightarrow> Inl ValueError
      | Some sample_to_image \<Rightarrow>
          (case map_of sample_to_image iid of
             None \<Rightarrow> Inl ValueError
           | Some inner \<Rightarrow>
               (case map_of inner environment_commit_id of
                  None \<Rightarrow> Inl ValueError
                | Some environment_image_name \<Rightarrow> Inr environment_image_name)))"

definition compose_text :: "string \<Rightarrow> string" where
  "compose_text environment_image_name =
     ''services:'' @ [CHR 0x0A] @ ''  default:'' @ [CHR 0x0A]
     @ ''    image: '' @ environment_image_name @ [CHR 0x0A]
     @ ''    command: '' @ [CHR 0x22] @ ''tail -f /dev/null'' @ [CHR 0x22] @ [CHR 0x0A]
     @ ''    working_dir: /testbed'' @ [CHR 0x0A]
     @ ''    x-local: true''"

text \<open>
  \<open>get_compose_file\<close>. \<open>dir\<close> is \<open>COMPOSE_FILE_DIR\<close> and a path in it is the directory,
  a slash and the file name; \<open>images\<close> is the list of the first tags of the images docker
  lists at the time of the call. The result is the path returned and the files after the
  call.
\<close>

definition get_compose_file ::
  "string \<Rightarrow> string list \<Rightarrow> files \<Rightarrow> string \<Rightarrow> string \<Rightarrow> error + (string \<times> files)" where
  "get_compose_file dir images fs environment_commit_id iid =
     (case resolve_image fs iid environment_commit_id of
        Inl e \<Rightarrow> Inl e
      | Inr environment_image_name \<Rightarrow>
          (let compose_file_path = dir @ ''/'' @ environment_commit_id @ ''.yaml'' in
           if compose_file_path \<in> dom (yaml_files fs) then Inr (compose_file_path, fs)
           else if environment_image_name \<notin> set images then Inl ValueError
           else
             (let compose_file_path = dir @ ''/'' @ environment_image_name @ ''.yaml'' in
              Inr (compose_file_path,
                   fs\<lparr>yaml_files := (yaml_files fs)
                         (compose_file_path \<mapsto> compose_text environment_image_name)\<rparr>))))"

section \<open>The script generators\<close>

text \<open>
  The tables \<open>MAP_REPO_VERSION_TO_SPECS\<close> and \<open>MAP_REPO_TO_INSTALL\<close> and the function
  \<open>get_test_directives\<close> belong to the SWE-bench harness: they are parameters. A
  specification is a dict of which the generators read four keys; a key that is absent is
  \<open>None\<close>.
\<close>

record spec =
  test_cmd :: "string option"
  eval_commands :: "string list option"
  pre_install :: "string list option"
  install :: "string option"

type_synonym spec_table = "string \<rightharpoonup> (string \<rightharpoonup> spec)"

text \<open>\<open>MAP_REPO_VERSION_TO_SPECS[repo][version]\<close>: either subscript raises \<open>KeyError\<close>.\<close>

definition lookup_spec :: "spec_table \<Rightarrow> string \<Rightarrow> string \<Rightarrow> error + spec" where
  "lookup_spec specs r v =
     (case specs r of
        None \<Rightarrow> Inl KeyError
      | Some versions \<Rightarrow> (case versions v of None \<Rightarrow> Inl KeyError | Some sp \<Rightarrow> Inr sp))"

text \<open>\<open>d.get(key, default)\<close>.\<close>

definition get_default :: "'a option \<Rightarrow> 'a \<Rightarrow> 'a" where
  "get_default x d = (case x of None \<Rightarrow> d | Some y \<Rightarrow> y)"

text \<open>
  \<open>re.findall(r"--- a/(.*)", test_patch)\<close>: the text is scanned from the left; where
  \<open>--- a/\<close> starts, the rest of the line is one result and the scan goes on at the end of
  that line (the dot matches every character but the newline).
\<close>

function findall_minus_a :: "string \<Rightarrow> string list" where
  "findall_minus_a [] = []"
| "findall_minus_a (c # cs) =
     (if starts_with (c # cs) ''--- a/''
      then takeWhile (\<lambda>x. x \<noteq> CHR 0x0A) (drop 6 (c # cs))
           # findall_minus_a (dropWhile (\<lambda>x. x \<noteq> CHR 0x0A) (drop 6 (c # cs)))
      else findall_minus_a cs)"
  by pat_completeness auto
termination
  by (relation "measure length")
     (auto intro: le_less_trans[OF length_dropWhile_le])

text \<open>
  \<open>shlex.quote\<close>: the empty string is written as two single quotes; a string of letters,
  digits, underscores and \<open>@%+=:,./-\<close> only is left as it is; any other string is put
  between single quotes, each single quote inside replaced by the five characters
  quote, double quote, quote, double quote, quote.
\<close>

definition safe_char :: "char \<Rightarrow> bool" where
  "safe_char c =
     (let n = (of_char c :: nat) in
      (0x30 \<le> n \<and> n \<le> 0x39) \<or> (0x41 \<le> n \<and> n \<le> 0x5A) \<or> (0x61 \<le> n \<and> n \<le> 0x7A)
      \<or> c \<in> set ''_@%+=:,./-'')"

definition quote_char :: "char \<Rightarrow> string" where
  "quote_char c =
     (if c = CHR 0x27 then [CHR 0x27, CHR 0x22, CHR 0x27, CHR 0x22, CHR 0x27] else [c])"

definition shlex_quote :: "string \<Rightarrow> string" where
  "shlex_quote s =
     (if s = [] then [CHR 0x27, CHR 0x27]
      else if list_all safe_char s then s
      else [CHR 0x27] @ concat (map quote_char s) @ [CHR 0x27])"

text \<open>Line 213 of \<open>get_eval_script\<close>, the line that writes the test patch to a file.\<close>

definition patch_line :: "string \<Rightarrow> string" where
  "patch_line tp = ''echo '' @ shlex_quote tp @ '' > /tmp/test_patch.diff ''"

text \<open>
  \<open>get_eval_script\<close>: the f-string of lines 189 to 218, as the list of its lines. The
  conda environment is \<open>testbed\<close> and the repository directory \<open>/testbed\<close>.
\<close>

definition get_eval_script ::
  "spec_table \<Rightarrow> (string \<Rightarrow> string \<Rightarrow> string list) \<Rightarrow> string \<Rightarrow> string \<Rightarrow> string \<Rightarrow> string
     \<Rightarrow> error + string" where
  "get_eval_script specs get_test_directives tp r v bc =
     (let conda_env = ''testbed''; repo_directory = ''/testbed'' in
      case lookup_spec specs r v of
        Inl e \<Rightarrow> Inl e
      | Inr sp \<Rightarrow>
          (case test_cmd sp of
             None \<Rightarrow> Inl KeyError
           | Some test_command \<Rightarrow>
               (let repo_specific_setup_command = get_default (eval_commands sp) [];
                    test_patch_files = findall_minus_a tp;
                    test_files = get_test_directives r tp
                in Inr (join [CHR 0x0A]
                  [''#!/bin/bash'',
                   ''set -uox pipefail'',
                   [],
                   ''#We switch to the repository directory and activate the environment needed to run the tests'',
                   ''cd '' @ repo_directory,
                   ''set -x'',
                   ''source /opt/miniconda3/bin/activate '',
                   ''conda activate '' @ conda_env,
                   ''set +x'',
                   [],
                   ''#We run all of the repo-specific setup commands (If any exist)'',
                   join [CHR 0x0A] repo_specific_setup_command,
                   [],
                   ''#We make sure we'' @ [CHR 0x27] @ ''re back in the correct cwd and environment, in case repo setup caused issues.'',
                   ''cd '' @ repo_directory,
                   ''set -x'',
                   ''source /opt/miniconda3/bin/activate'',
                   ''conda activate '' @ conda_env,
                   ''set +x'',
                   [],
                   ''#First we reset all of the files which out test patch touches'',
                   ''git checkout '' @ bc @ '' '' @ join '' '' test_patch_files,
                   [],
                   ''#Then we apply the test patch given to us by SWE-bench, setting up the test we need to run'',
                   patch_line tp,
                   ''git apply --check /tmp/test_patch.diff'',
                   ''git apply /tmp/test_patch.diff'',
                   [],
                   ''#Then we run all the tests in the repository.'',
                   test_command @ '' '' @ join '' '' test_files]))))"

text \<open>\<open>get_setup_script\<close>: the f-string of lines 228 to 241.\<close>

definition get_setup_script ::
  "spec_table \<Rightarrow> (string \<rightharpoonup> string) \<Rightarrow> string \<Rightarrow> string \<Rightarrow> string \<Rightarrow> error + string" where
  "get_setup_script specs MAP_REPO_TO_INSTALL r v bc =
     (case MAP_REPO_TO_INSTALL r of
        None \<Rightarrow> Inl KeyError
      | Some repo_install \<Rightarrow>
          (case lookup_spec specs r v of
             Inl e \<Rightarrow> Inl e
           | Inr sp \<Rightarrow>
               Inr (join [CHR 0x0A]
                 [''#!/bin/bash'',
                  ''set -euxo pipefail'',
                  [],
                  ''# We clone the repository and set the permissions so the non-root user can run tests'',
                  ''git clone -o origin https://github.com/'' @ r @ '' /testbed/'',
                  ''chmod -R 777 /testbed/'',
                  ''cd /testbed/'',
                  ''git reset --hard '' @ bc,
                  ''git remote remove origin'',
                  [],
                  ''# We then do any repo-specific install scripts'',
                  repo_install,
                  join [CHR 0x0A] (get_default (pre_install sp) []),
                  get_default (install sp) []])))"

section \<open>The shell's reading of the patch line\<close>

text \<open>
  The scorer hands the eval script to \<open>bash -c\<close>. What follows is the part of bash the
  line written by \<open>patch_line\<close> needs, and nothing more: a simple command is split into
  words at unquoted spaces; between single quotes every character stands for itself;
  between double quotes every character but the dollar, the backquote and the backslash
  stands for itself; outside quotes only the characters \<open>shlex.quote\<close> leaves bare are
  read. \<open>None\<close> is any text this reading does not cover: an unclosed quote, an expansion,
  an operator other than a single \<open>>\<close> between words.
\<close>

datatype token = Word string | Great

datatype quoting = Plain | Single | Double

definition flush :: "string option \<Rightarrow> token list" where
  "flush cur = (case cur of None \<Rightarrow> [] | Some w \<Rightarrow> [Word w])"

definition open_word :: "string option \<Rightarrow> string option" where
  "open_word cur = Some (get_default cur [])"

definition add_char :: "char \<Rightarrow> string option \<Rightarrow> string option" where
  "add_char c cur = Some (get_default cur [] @ [c])"

fun tokens :: "quoting \<Rightarrow> string option \<Rightarrow> string \<Rightarrow> token list option" where
  "tokens Plain cur [] = Some (flush cur)"
| "tokens Single cur [] = None"
| "tokens Double cur [] = None"
| "tokens Plain cur (c # cs) =
     (if c = CHR 0x20 then map_option (\<lambda>ts. flush cur @ ts) (tokens Plain None cs)
      else if c = CHR 0x3E then
        (if cur = None then map_option (\<lambda>ts. Great # ts) (tokens Plain None cs) else None)
      else if c = CHR 0x27 then tokens Single (open_word cur) cs
      else if c = CHR 0x22 then tokens Double (open_word cur) cs
      else if safe_char c then tokens Plain (add_char c cur) cs
      else None)"
| "tokens Single cur (c # cs) =
     (if c = CHR 0x27 then tokens Plain cur cs else tokens Single (add_char c cur) cs)"
| "tokens Double cur (c # cs) =
     (if c = CHR 0x22 then tokens Plain cur cs
      else if c = CHR 0x24 \<or> c = CHR 0x60 \<or> c = CHR 0x5C then None
      else tokens Double (add_char c cur) cs)"

text \<open>
  The builtin \<open>echo\<close> with one argument: an argument made of a dash and then one or more
  of the letters \<open>n\<close>, \<open>e\<close>, \<open>E\<close> is taken as options and printed not at all; any other
  argument is printed as it is. A newline follows unless the option \<open>n\<close> was given.
\<close>

definition echo_option :: "string \<Rightarrow> bool" where
  "echo_option w =
     (case w of
        c # l # ls \<Rightarrow> c = CHR ''-'' \<and> list_all (\<lambda>x. x \<in> set ''neE'') (l # ls)
      | _ \<Rightarrow> False)"

definition echo_output :: "string \<Rightarrow> string" where
  "echo_output w =
     (if echo_option w then (if CHR ''n'' \<in> set w then [] else [CHR 0x0A])
      else w @ [CHR 0x0A])"

text \<open>
  Running a line of the form \<open>echo WORD > PATH\<close>: the path of the file written and its
  content afterwards.
\<close>

definition run_line :: "string \<Rightarrow> (string \<times> string) option" where
  "run_line l =
     (case tokens Plain None l of
        Some [Word cmd, Word w, Great, Word path] \<Rightarrow>
          if cmd = ''echo'' then Some (path, echo_output w) else None
      | _ \<Rightarrow> None)"

section \<open>Example inputs\<close>

text \<open>The markers as the SWE-bench harness defines them, and the metadata of one instance.\<close>

definition example_constants :: constants where
  "example_constants =
     \<lparr>APPLY_PATCH_FAIL = ''>>>>> Patch Apply Failed'', RESET_FAILED = ''>>>>> Reset Failed'',
      TESTS_ERROR = ''>>>>> Tests Errored'', TESTS_TIMEOUT = ''>>>>> Tests Timed Out''\<rparr>"

definition example_metadata :: metadata where
  "example_metadata =
     \<lparr>base_commit = ''0b8cd1b'', test_patch = ''--- a/tests/test_a.py'', version = ''0.9'',
      repo = ''pvlib/pvlib-python'', PASS_TO_PASS = [''t1'', ''t2''], FAIL_TO_PASS = [''t3'']\<rparr>"

definition example_outcomes :: "(string, string) dict" where
  "example_outcomes =
     [(''t1'', ''PASSED''), (''t2'', ''PASSED''), (''t3'', ''PASSED''), (''t9'', ''SKIPPED'')]"

definition example_files :: files where
  "example_files = \<lparr>sample_to_image_json = Some [(''i1'', [(''c1'', ''img1'')])],
                     yaml_files = Map.empty\<rparr>"

text \<open>One entry of the specification table, for the repository of the example instance.\<close>

definition example_specs :: spec_table where
  "example_specs =
     [''pvlib/pvlib-python'' \<mapsto>
        [''0.9'' \<mapsto> \<lparr>test_cmd = Some ''pytest -rA'', eval_commands = None,
                       pre_install = None, install = Some ''pip install -e .[all]''\<rparr>]]"

text \<open>
  A test patch with a newline, single quotes, double quotes and a backslash in it.
\<close>

definition example_patch :: string where
  "example_patch =
     ''--- a/tests/test_a.py'' @ [CHR 0x0A] @ ''+s = '' @ [CHR 0x27] @ ''a'' @ [CHR 0x27]
       @ '' + '' @ [CHR 0x22] @ ''b'' @ [CHR 0x5C] @ ''n'' @ [CHR 0x22]"

section \<open>Properties of the scorer\<close>

lemma starts_with_prefix: "starts_with s p = prefix p s"
  by (induction s p rule: starts_with.induct) auto

lemma str_in_sublist: "str_in x s = sublist x s"
  by (induction s) (auto simp: starts_with_prefix sublist_Cons_right)

lemma update_fresh: "k \<notin> fst ` set al \<Longrightarrow> AList.update k v al = al @ [(k, v)]"
  by (induction al) auto

lemma search_map_of:
  "map_of (foldl (\<lambda>d x. AList.update x (f x) d) d0 xs) k =
     (if k \<in> set xs then Some (f k) else map_of d0 k)"
  by (induction xs arbitrary: d0) (auto simp: update_conv')

lemma search_distinct:
  "distinct (map fst d0) \<Longrightarrow> distinct (map fst (foldl (\<lambda>d x. AList.update x (f x) d) d0 xs))"
  by (induction xs arbitrary: d0) (auto simp: distinct_update)

lemma error_string_search_item:
  "(k, b) \<in> set (error_string_search c out) \<longleftrightarrow> k \<in> set (signatures c) \<and> b = str_in k out"
proof -
  have d: "distinct (map fst (error_string_search c out))"
    unfolding error_string_search_def by (rule search_distinct) simp
  have "(k, b) \<in> set (error_string_search c out) \<longleftrightarrow> map_of (error_string_search c out) k = Some b"
    using d by simp
  also have "\<dots> \<longleftrightarrow> k \<in> set (signatures c) \<and> b = str_in k out"
    unfolding error_string_search_def by (auto simp: search_map_of)
  finally show ?thesis .
qed

lemma any_values_search:
  "any_values (error_string_search c out) \<longleftrightarrow> (\<exists>x \<in> set (signatures c). str_in x out)"
  unfolding any_values_def list_ex_iff
  using error_string_search_item[of _ _ c out] by (metis prod.collapse snd_conv)

lemma partition_results_distinct:
  "distinct (map fst outs) \<Longrightarrow> fst ` set outs \<inter> fst ` set pp = {} \<Longrightarrow>
   fst ` set outs \<inter> fst ` set fp = {} \<Longrightarrow>
   partition_results p2p outs (pp, fp) =
     (pp @ map (\<lambda>(k, v). (k, ''PASSED'' = v)) (filter (\<lambda>(k, v). k \<in> set p2p) outs),
      fp @ map (\<lambda>(k, v). (k, ''PASSED'' = v)) (filter (\<lambda>(k, v). k \<notin> set p2p) outs))"
proof (induction outs arbitrary: pp fp)
  case Nil
  then show ?case by simp
next
  case (Cons a outs)
  obtain k v where a: "a = (k, v)" by (cases a)
  from Cons.prems have kpp: "k \<notin> fst ` set pp" and kfp: "k \<notin> fst ` set fp"
    and d: "distinct (map fst outs)" and kn: "k \<notin> fst ` set outs"
    and i1: "fst ` set outs \<inter> fst ` set pp = {}" and i2: "fst ` set outs \<inter> fst ` set fp = {}"
    by (auto simp: a)
  show ?case
  proof (cases "k \<in> set p2p")
    case True
    have "fst ` set outs \<inter> fst ` set (pp @ [(k, ''PASSED'' = v)]) = {}"
      using i1 kn by auto
    from Cons.IH[OF d this i2] True kpp show ?thesis
      by (simp add: a update_fresh Let_def)
  next
    case False
    have "fst ` set outs \<inter> fst ` set (fp @ [(k, ''PASSED'' = v)]) = {}"
      using i2 kn by auto
    from Cons.IH[OF d i1 this] False kfp show ?thesis
      by (simp add: a update_fresh Let_def)
  qed
qed

lemma partitions_sets:
  assumes "distinct (map fst outs)"
  shows "set (fst (partitions md outs)) = {(k, ''PASSED'' = v) | k v. (k, v) \<in> set outs \<and> k \<in> set (PASS_TO_PASS md)}"
    and "set (snd (partitions md outs)) = {(k, ''PASSED'' = v) | k v. (k, v) \<in> set outs \<and> k \<notin> set (PASS_TO_PASS md)}"
  using partition_results_distinct[OF assms, of "[]" "[]" "PASS_TO_PASS md"]
  by (auto simp: partitions_def)

lemma all_values_iff: "all_values d \<longleftrightarrow> (\<forall>(k, b) \<in> set d. b)"
  by (auto simp: all_values_def list_all_iff)

lemma sublist_in_right: "sublist x m \<Longrightarrow> sublist x (a @ m)"
  by (simp add: sublist_append)

lemma sublist_in_left: "sublist x m \<Longrightarrow> sublist x (m @ b)"
  by (simp add: sublist_append)

lemma join_sublist: "x \<in> set xs \<Longrightarrow> sublist x (join sep xs)"
proof (induction sep xs rule: join.induct)
  case (1 sep)
  then show ?case by simp
next
  case (2 sep y)
  then show ?case by simp
next
  case (3 sep y z zs)
  show ?case
  proof (cases "x = y")
    case True
    then show ?thesis using sublist_appendI[of y "[]"] by simp
  next
    case False
    with 3 have "sublist x (join sep (z # zs))" by simp
    then show ?thesis
      unfolding join.simps by (blast intro: sublist_in_right)
  qed
qed

lemma repr_dict_names: "kv \<in> set d \<Longrightarrow> sublist (repr_item kv) (repr_dict d)"
proof -
  assume "kv \<in> set d"
  then have "sublist (repr_item kv) (join '', '' (map repr_item d))"
    by (intro join_sublist) simp
  then show ?thesis
    unfolding repr_dict_def
    by (blast intro: sublist_in_right sublist_in_left)
qed

lemma partitions_fst_mem:
  assumes "distinct (map fst outs)"
  shows "(k, b) \<in> set (fst (partitions md outs)) \<longleftrightarrow>
           (\<exists>v. (k, v) \<in> set outs \<and> k \<in> set (PASS_TO_PASS md) \<and> b = (''PASSED'' = v))"
  unfolding partitions_sets(1)[OF assms] by blast

lemma partitions_snd_mem:
  assumes "distinct (map fst outs)"
  shows "(k, b) \<in> set (snd (partitions md outs)) \<longleftrightarrow>
           (\<exists>v. (k, v) \<in> set outs \<and> k \<notin> set (PASS_TO_PASS md) \<and> b = (''PASSED'' = v))"
  unfolding partitions_sets(2)[OF assms] by blast

lemma score_eval_output_parsed:
  assumes "\<forall>x \<in> set (signatures c). \<not> str_in x out"
    and "MAP_REPO_TO_PARSER (repo md) = Some test_output_parser"
    and "test_output_parser out = Inr test_outputs"
  shows "score_eval_output c MAP_REPO_TO_PARSER md agent_patch out =
     Inr \<lparr>val = (if all_values (fst (partitions md test_outputs))
                    \<and> all_values (snd (partitions md test_outputs)) then 1 else 0),
          explanation = partition_explanation (fst (partitions md test_outputs))
                          (snd (partitions md test_outputs)),
          model_patch = agent_patch\<rparr>"
proof -
  have "\<not> any_values (error_string_search c out)"
    using assms(1) by (simp add: any_values_search)
  then show ?thesis
    using assms(2,3) by (simp add: score_eval_output_def split: prod.split)
qed

lemma example_no_signature:
  "\<forall>x \<in> set (signatures example_constants). \<not> str_in x ''4 tests ran''"
  by (simp add: signatures_def example_constants_def)

lemma example_partitions:
  "partitions example_metadata example_outcomes =
     ([(''t1'', True), (''t2'', True)], [(''t9'', False), (''t3'', True)])"
  by (simp add: partitions_def example_metadata_def example_outcomes_def)

text \<open>
  Claim C10. A parsed test whose verdict is any string other than PASSED is recorded as
  not passed in the partition it lands in, and the score is then 0.0.
\<close>

theorem C10_non_passed_forces_zero:
  assumes "\<forall>x \<in> set (signatures c). \<not> str_in x out"
    and "MAP_REPO_TO_PARSER (repo md) = Some test_output_parser"
    and "test_output_parser out = Inr test_outputs"
    and "distinct (map fst test_outputs)"
    and "(k, v) \<in> set test_outputs"
    and "v \<noteq> ''PASSED''"
  shows "\<exists>s. score_eval_output c MAP_REPO_TO_PARSER md agent_patch out = Inr s
     \<and> val s = 0
     \<and> ((k, False) \<in> set (fst (partitions md test_outputs))
          \<or> (k, False) \<in> set (snd (partitions md test_outputs)))"
proof -
  have mem: "(k, False) \<in> set (fst (partitions md test_outputs))
          \<or> (k, False) \<in> set (snd (partitions md test_outputs))"
    unfolding partitions_fst_mem[OF assms(4)] partitions_snd_mem[OF assms(4)]
    using assms(5,6) by blast
  then have n: "\<not> (all_values (fst (partitions md test_outputs))
                \<and> all_values (snd (partitions md test_outputs)))"
    unfolding all_values_iff by blast
  have s: "score_eval_output c MAP_REPO_TO_PARSER md agent_patch out =
     Inr \<lparr>val = (if all_values (fst (partitions md test_outputs))
                    \<and> all_values (snd (partitions md test_outputs)) then 1 else 0),
          explanation = partition_explanation (fst (partitions md test_outputs))
                          (snd (partitions md test_outputs)),
          model_patch = agent_patch\<rparr>"
    using assms(1) assms(2) assms(3) by (rule score_eval_output_parsed)
  show ?thesis
    unfolding s using n mem by simp
qed

theorem C10_witness:
  "\<exists>s. score_eval_output example_constants
          [''pvlib/pvlib-python'' \<mapsto> (\<lambda>out. Inr example_outcomes)]
          example_metadata ''diff'' ''4 tests ran'' = Inr s
     \<and> val s = 0
     \<and> ((''t9'', False) \<in> set (fst (partitions example_metadata example_outcomes))
          \<or> (''t9'', False) \<in> set (snd (partitions example_metadata example_outcomes)))"
proof -
  have p: "[''pvlib/pvlib-python'' \<mapsto> (\<lambda>out. Inr example_outcomes)] (repo example_metadata)
             = Some (\<lambda>out. Inr example_outcomes)"
    by (simp add: example_metadata_def)
  have d: "distinct (map fst example_outcomes)"
    by (simp add: example_outcomes_def)
  have m: "(''t9'', ''SKIPPED'') \<in> set example_outcomes"
    by (simp add: example_outcomes_def)
  have v: "''SKIPPED'' \<noteq> ''PASSED''" by simp
  show ?thesis
    by (rule C10_non_passed_forces_zero
          [where test_output_parser = "\<lambda>out. Inr example_outcomes"
             and test_outputs = example_outcomes and c = example_constants
             and md = example_metadata and out = "''4 tests ran''"
             and MAP_REPO_TO_PARSER =
               "[''pvlib/pvlib-python'' \<mapsto> (\<lambda>out. Inr example_outcomes)]",
           OF example_no_signature p refl d m v])
qed

text \<open>
  Claim C1, evaluated on the code. The loop sends a test to the PASS_TO_PASS partition when
  its identifier is in the instance's PASS_TO_PASS collection and to the FAIL_TO_PASS
  partition in every other case; FAIL_TO_PASS itself is never consulted. Here \<open>t9\<close> is in
  neither collection, is skipped, lands in the FAIL_TO_PASS partition and brings the score
  of an otherwise passing run to 0.0.
\<close>

theorem C1_neither_set_lands_in_fail_to_pass:
  "partitions example_metadata example_outcomes =
     ([(''t1'', True), (''t2'', True)], [(''t9'', False), (''t3'', True)])
   \<and> ''t9'' \<notin> set (PASS_TO_PASS example_metadata)
   \<and> ''t9'' \<notin> set (FAIL_TO_PASS example_metadata)
   \<and> (\<exists>s. score_eval_output example_constants
              [''pvlib/pvlib-python'' \<mapsto> (\<lambda>out. Inr example_outcomes)]
              example_metadata ''diff'' ''4 tests ran'' = Inr s \<and> val s = 0)"
proof -
  have s: "score_eval_output example_constants
              [''pvlib/pvlib-python'' \<mapsto> (\<lambda>out. Inr example_outcomes)]
              example_metadata ''diff'' ''4 tests ran'' =
     Inr \<lparr>val = (if all_values (fst (partitions example_metadata example_outcomes))
                    \<and> all_values (snd (partitions example_metadata example_outcomes))
                  then 1 else 0),
          explanation = partition_explanation (fst (partitions example_metadata example_outcomes))
                          (snd (partitions example_metadata example_outcomes)),
          model_patch = ''diff''\<rparr>"
    by (rule score_eval_output_parsed
          [where test_output_parser = "\<lambda>out. Inr example_outcomes"
             and c = example_constants and md = example_metadata and out = "''4 tests ran''",
           OF example_no_signature])
       (simp_all add: example_metadata_def)
  have m: "''t9'' \<notin> set (PASS_TO_PASS example_metadata)
         \<and> ''t9'' \<notin> set (FAIL_TO_PASS example_metadata)"
    by (simp add: example_metadata_def)
  show ?thesis
    unfolding s example_partitions using m by (simp add: all_values_def)
qed

text \<open>
  Claim C4, evaluated on the code. The stdout holds no failure marker. Of the parsed
  outcomes, the tests of the instance's PASS_TO_PASS set are \<open>t1\<close> and \<open>t2\<close>, the one of its
  FAIL_TO_PASS set is \<open>t3\<close>, and all three have the verdict PASSED: by the claim the score
  is 1.0. The code gives 0.0, because the skipped test \<open>t9\<close>, which is in neither set, is
  counted in the FAIL_TO_PASS partition; the explanation shows it under that label. The
  explanation does hold both labelled partitions.
\<close>

theorem C4_listed_tests_passed_score_zero:
  "spec_partition (PASS_TO_PASS example_metadata) example_outcomes =
     [(''t1'', True), (''t2'', True)]
   \<and> spec_partition (FAIL_TO_PASS example_metadata) example_outcomes = [(''t3'', True)]
   \<and> (\<exists>s. score_eval_output example_constants
              [''pvlib/pvlib-python'' \<mapsto> (\<lambda>out. Inr example_outcomes)]
              example_metadata ''diff'' ''4 tests ran'' = Inr s
          \<and> val s = 0
          \<and> explanation s =
              partition_explanation [(''t1'', True), (''t2'', True)]
                [(''t9'', False), (''t3'', True)])"
proof -
  have s: "score_eval_output example_constants
              [''pvlib/pvlib-python'' \<mapsto> (\<lambda>out. Inr example_outcomes)]
              example_metadata ''diff'' ''4 tests ran'' =
     Inr \<lparr>val = (if all_values (fst (partitions example_metadata example_outcomes))
                    \<and> all_values (snd (partitions example_metadata example_outcomes))
                  then 1 else 0),
          explanation = partition_explanation (fst (partitions example_metadata example_outcomes))
                          (snd (partitions example_metadata example_outcomes)),
          model_patch = ''diff''\<rparr>"
    by (rule score_eval_output_parsed
          [where test_output_parser = "\<lambda>out. Inr example_outcomes"
             and c = example_constants and md = example_metadata and out = "''4 tests ran''",
           OF example_no_signature])
       (simp_all add: example_metadata_def)
  have p: "spec_partition (PASS_TO_PASS example_metadata) example_outcomes =
             [(''t1'', True), (''t2'', True)]
         \<and> spec_partition (FAIL_TO_PASS example_metadata) example_outcomes = [(''t3'', True)]"
    by (simp add: spec_partition_def example_metadata_def example_outcomes_def)
  show ?thesis
    unfolding s example_partitions using p by (simp add: all_values_def)
qed

text \<open>
  Claim C9. When the captured stdout holds no failure marker and the repository's parser
  returns the empty dict, both partitions are empty and the score is 1.0: an output in
  which no test was recognised counts as a success.
\<close>

theorem C9_empty_outcomes_score_one:
  assumes "\<forall>x \<in> set (signatures c). \<not> str_in x out"
    and "MAP_REPO_TO_PARSER (repo md) = Some test_output_parser"
    and "test_output_parser out = Inr []"
  shows "score_eval_output c MAP_REPO_TO_PARSER md agent_patch out =
           Inr \<lparr>val = 1, explanation = partition_explanation [] [], model_patch = agent_patch\<rparr>"
  using assms
  by (simp add: score_eval_output_def any_values_search partitions_def all_values_def)

theorem C9_witness:
  "score_eval_output example_constants [''pvlib/pvlib-python'' \<mapsto> (\<lambda>out. Inr [])]
       example_metadata ''diff'' ''collected 0 items'' =
     Inr \<lparr>val = 1, explanation = partition_explanation [] [], model_patch = ''diff''\<rparr>"
  using C9_empty_outcomes_score_one
          [of example_constants "''collected 0 items''"
              "[''pvlib/pvlib-python'' \<mapsto> (\<lambda>out. Inr [])]" example_metadata "\<lambda>out. Inr []"
              "''diff''"]
  by (simp add: example_constants_def example_metadata_def signatures_def)

text \<open>
  Claim C5. When the captured stdout contains one of the five failure markers, the score
  is 0.0 whatever the parser table holds: the result is the one obtained with an empty
  table, so no parser is looked up or called, and verdicts printed in the same text play no
  part. The explanation shows, for every marker, its \<open>repr\<close> followed by whether it was
  found, and ends with the raw output.
\<close>

theorem C5_signature_precedence:
  assumes "\<exists>x \<in> set (signatures c). str_in x out"
  shows "score_eval_output c MAP_REPO_TO_PARSER md agent_patch out =
           Inr \<lparr>val = 0, explanation = failure_explanation (error_string_search c out) out,
                model_patch = agent_patch\<rparr>
         \<and> score_eval_output c MAP_REPO_TO_PARSER md agent_patch out =
           score_eval_output c Map.empty md agent_patch out
         \<and> (\<forall>x \<in> set (signatures c).
               sublist (repr_str x @ '': '' @ repr_bool (str_in x out))
                 (failure_explanation (error_string_search c out) out))
         \<and> sublist out (failure_explanation (error_string_search c out) out)"
proof -
  have a: "any_values (error_string_search c out)"
    using assms by (simp add: any_values_search)
  have names: "sublist (repr_str x @ '': '' @ repr_bool (str_in x out))
                 (failure_explanation (error_string_search c out) out)"
    if "x \<in> set (signatures c)" for x
  proof -
    from that have "(x, str_in x out) \<in> set (error_string_search c out)"
      by (simp add: error_string_search_item)
    then have "sublist (repr_item (x, str_in x out)) (repr_dict (error_string_search c out))"
      by (rule repr_dict_names)
    then show ?thesis
      unfolding failure_explanation_def repr_item_def fst_conv snd_conv
      by (blast intro: sublist_in_right sublist_in_left)
  qed
  have raw: "sublist out (failure_explanation (error_string_search c out) out)"
    unfolding failure_explanation_def
    by (blast intro: sublist_in_right sublist_order.order_refl)
  from a names raw show ?thesis
    by (simp add: score_eval_output_def)
qed

theorem C5_witness:
  "(\<exists>x \<in> set (signatures example_constants). str_in x ''t1 PASSED >>>>> Patch Apply Failed'')
   \<and> score_eval_output example_constants [''pvlib/pvlib-python'' \<mapsto> (\<lambda>out. Inr [(''t1'', ''PASSED'')])]
         example_metadata ''diff'' ''t1 PASSED >>>>> Patch Apply Failed'' =
       Inr \<lparr>val = 0,
            explanation = failure_explanation
              (error_string_search example_constants ''t1 PASSED >>>>> Patch Apply Failed'')
              ''t1 PASSED >>>>> Patch Apply Failed'',
            model_patch = ''diff''\<rparr>"
proof -
  have h: "\<exists>x \<in> set (signatures example_constants). str_in x ''t1 PASSED >>>>> Patch Apply Failed''"
    by (simp add: signatures_def example_constants_def)
  from C5_signature_precedence [OF h] h show ?thesis
    by blast
qed

section \<open>Properties of the image mapping and the compose files\<close>

text \<open>
  What the loop body does: for an instance identifier the mapping already has, nothing,
  whatever the commit and the image; for a new one, one entry with the commit and image.
\<close>

lemma record_entry_known_instance:
  "iid \<in> fst ` set m \<Longrightarrow> record_entry m iid commit image_name = Inr m"
  by (simp add: record_entry_def)

lemma update_append_last:
  "k \<notin> fst ` set al \<Longrightarrow> AList.update k v (al @ [(k, w)]) = al @ [(k, v)]"
  by (induction al) auto

lemma record_entry_new_instance:
  "iid \<notin> fst ` set m \<Longrightarrow>
     record_entry m iid commit image_name = Inr (m @ [(iid, [(commit, image_name)])])"
  by (simp add: record_entry_def update_fresh update_append_last Let_def map_add_def
        map_of_eq_None_iff[THEN iffD2])

text \<open>
  Claim C2, evaluated on the code. The mapping file already has instance \<open>i1\<close> under
  commit \<open>c1\<close>. Recording \<open>i1\<close> under the other commit \<open>c2\<close> with
  image \<open>img2\<close> leaves the file as it was, and resolving \<open>(i1, c2)\<close> afterwards
  fails with \<open>ValueError\<close> instead of returning \<open>img2\<close>.
\<close>

theorem C2_record_dropped_for_known_instance:
  "build_docker_images [''img1'', ''img2''] [\<lparr>env_image_key = ''img2''\<rparr>]
       [\<lparr>instance_id = ''i1'', environment_setup_commit = ''c2''\<rparr>] example_files =
     Inr example_files
   \<and> resolve_image example_files ''i1'' ''c2'' = Inl ValueError
   \<and> get_compose_file ''compose_files'' [''img1'', ''img2''] example_files ''c2'' ''i1'' =
       Inl ValueError"
  by (simp add: build_docker_images_def record_entry_def resolve_image_def
        get_compose_file_def example_files_def)

text \<open>
  Claim C3, evaluated on the code. The mapping file maps \<open>(i1, c1)\<close> to \<open>img1\<close>.
  Recording the same key with the different image \<open>img2\<close> raises nothing: the function
  returns normally, the file is unchanged and the key still resolves to \<open>img1\<close>. The
  assertion of line 32 is never reached.
\<close>

theorem C3_conflict_not_raised:
  "build_docker_images [''img1'', ''img2''] [\<lparr>env_image_key = ''img2''\<rparr>]
       [\<lparr>instance_id = ''i1'', environment_setup_commit = ''c1''\<rparr>] example_files =
     Inr example_files
   \<and> resolve_image example_files ''i1'' ''c1'' = Inr ''img1''"
  by (simp add: build_docker_images_def record_entry_def resolve_image_def example_files_def)

text \<open>
  Claim C7, evaluated on the code. The first request writes the compose file under the
  image name, while the test for an existing file looks under the environment commit. A
  second request for the same key therefore misses the file just written and checks the
  image list again: with the image gone from the list it fails with \<open>ValueError\<close> instead
  of returning the file of the first request.
\<close>

theorem C7_second_request_revalidates:
  "get_compose_file ''compose_files'' [''img1''] example_files ''c1'' ''i1'' =
     Inr (''compose_files/img1.yaml'',
          example_files\<lparr>yaml_files := [''compose_files/img1.yaml'' \<mapsto> compose_text ''img1'']\<rparr>)
   \<and> get_compose_file ''compose_files'' []
       (example_files\<lparr>yaml_files := [''compose_files/img1.yaml'' \<mapsto> compose_text ''img1'']\<rparr>)
       ''c1'' ''i1'' = Inl ValueError"
  by (simp add: get_compose_file_def resolve_image_def example_files_def Let_def)


section \<open>Properties of the script generators\<close>

text \<open>
  Claim C8. Both generators are functions of their arguments and of what they read from
  the harness: the specification stored for the repository and version, the install
  command stored for the repository, and the test directives of the repository and test
  patch. Two calls that agree on the arguments and on these three readings return the
  same script text, or fail with the same error, whatever else the tables hold. Nothing
  else enters the text: no clock, no random source, no environment variable.
\<close>

theorem C8_generators_deterministic:
  assumes "lookup_spec specs r v = lookup_spec specs' r v"
    and "directives r tp = directives' r tp"
    and "installs r = installs' r"
  shows "get_eval_script specs directives tp r v bc = get_eval_script specs' directives' tp r v bc
       \<and> get_setup_script specs installs r v bc = get_setup_script specs' installs' r v bc"
  by (simp only: get_eval_script_def get_setup_script_def assms simp_thms)

theorem C8_witness:
  "get_eval_script example_specs (\<lambda>r tp. [''tests/test_a.py'']) ''--- a/tests/test_a.py''
       ''pvlib/pvlib-python'' ''0.9'' ''0b8cd1b'' =
     get_eval_script (example_specs(''django/django'' \<mapsto> Map.empty))
       (\<lambda>r tp. if r = ''django/django'' then [] else [''tests/test_a.py''])
       ''--- a/tests/test_a.py'' ''pvlib/pvlib-python'' ''0.9'' ''0b8cd1b''
   \<and> get_setup_script example_specs [''pvlib/pvlib-python'' \<mapsto> ''python -m pip install -e .'']
       ''pvlib/pvlib-python'' ''0.9'' ''0b8cd1b'' =
     get_setup_script (example_specs(''django/django'' \<mapsto> Map.empty))
       [''pvlib/pvlib-python'' \<mapsto> ''python -m pip install -e .'', ''django/django'' \<mapsto> []]
       ''pvlib/pvlib-python'' ''0.9'' ''0b8cd1b''"
  by (rule C8_generators_deterministic) (simp_all add: lookup_spec_def)


section \<open>Properties of the patch line\<close>

text \<open>
  What \<open>shlex.quote\<close> writes is read back by the shell as one word, the text that was
  quoted: a bare text has only characters the shell reads as themselves, and in a quoted
  text every single quote closes the quotes, stands between double quotes, and opens the
  quotes again.
\<close>

lemma safe_char_plain:
  "safe_char c \<Longrightarrow> c \<noteq> CHR 0x20 \<and> c \<noteq> CHR 0x3E \<and> c \<noteq> CHR 0x27 \<and> c \<noteq> CHR 0x22"
  by (auto simp add: safe_char_def Let_def)

lemma tokens_safe:
  "list_all safe_char p \<Longrightarrow>
     tokens Plain cur (p @ rest) =
       (if p = [] then tokens Plain cur rest
        else tokens Plain (Some (get_default cur [] @ p)) rest)"
proof (induction p arbitrary: cur)
  case Nil
  then show ?case by simp
next
  case (Cons c p)
  from Cons.prems have sc: "safe_char c" and sp: "list_all safe_char p" by simp_all
  from safe_char_plain[OF sc] sc
  have "tokens Plain cur ((c # p) @ rest) = tokens Plain (add_char c cur) (p @ rest)"
    by simp
  also have "\<dots> = tokens Plain (Some (get_default cur [] @ c # p)) rest"
    using Cons.IH[OF sp, of "add_char c cur"]
    by (simp add: add_char_def get_default_def)
  finally show ?case by simp
qed

lemma tokens_quoted:
  "tokens Single (Some w) (concat (map quote_char p) @ CHR 0x27 # rest) =
     tokens Plain (Some (w @ p)) rest"
proof (induction p arbitrary: w)
  case Nil
  then show ?case by simp
next
  case (Cons c p)
  show ?case
  proof (cases "c = CHR 0x27")
    case True
    then show ?thesis
      using Cons.IH[of "w @ [CHR 0x27]"]
      by (simp add: quote_char_def open_word_def add_char_def get_default_def)
  next
    case False
    then show ?thesis
      using Cons.IH[of "w @ [c]"]
      by (simp add: quote_char_def add_char_def get_default_def)
  qed
qed

lemma tokens_shlex_quote:
  "tokens Plain None (shlex_quote p @ rest) = tokens Plain (Some p) rest"
proof (cases "p = []")
  case True
  then show ?thesis
    by (simp add: shlex_quote_def open_word_def get_default_def)
next
  case ne: False
  show ?thesis
  proof (cases "list_all safe_char p")
    case True
    with ne show ?thesis
      using tokens_safe[OF True, of None rest]
      by (simp add: shlex_quote_def get_default_def)
  next
    case False
    with ne show ?thesis
      using tokens_quoted[of "[]" p rest]
      by (simp add: shlex_quote_def open_word_def get_default_def)
  qed
qed

lemma tokens_patch_line:
  "tokens Plain None (patch_line p) =
     Some [Word ''echo'', Word p, Great, Word ''/tmp/test_patch.diff'']"
proof -
  have tail: "tokens Plain (Some p) '' > /tmp/test_patch.diff '' =
      Some [Word p, Great, Word ''/tmp/test_patch.diff'']"
    by (simp add: flush_def add_char_def get_default_def safe_char_def Let_def)
  have single: "(@) [Word ''echo''] = (#) (Word ''echo'')"
    by (rule ext) simp
  have "tokens Plain None (patch_line p) =
      map_option (\<lambda>ts. Word ''echo'' # ts)
        (tokens Plain None (shlex_quote p @ '' > /tmp/test_patch.diff ''))"
    by (simp add: patch_line_def flush_def add_char_def get_default_def safe_char_def Let_def
        single)
  also have "\<dots> = Some [Word ''echo'', Word p, Great, Word ''/tmp/test_patch.diff'']"
    by (simp only: tokens_shlex_quote tail option.map)
  finally show ?thesis .
qed

lemma run_patch_line:
  "run_line (patch_line p) = Some (''/tmp/test_patch.diff'', echo_output p)"
  by (simp add: run_line_def tokens_patch_line)

text \<open>
  Claim C6, as the code has it. The patch line is \<open>echo\<close> with the quoted patch as its one
  argument, redirected to \<open>/tmp/test_patch.diff\<close>. For every patch text that \<open>echo\<close> does
  not take for options, whatever quotes, backslashes and newlines it holds, the line runs
  and the file holds the patch text followed by one newline.
\<close>

theorem C6_patch_file_is_patch_and_newline:
  "\<not> echo_option tp \<Longrightarrow>
     run_line (patch_line tp) = Some (''/tmp/test_patch.diff'', tp @ [CHR 0x0A])"
  by (simp add: run_patch_line echo_output_def)

theorem C6_witness:
  "\<not> echo_option example_patch \<and>
   run_line (patch_line example_patch) = Some (''/tmp/test_patch.diff'', example_patch @ [CHR 0x0A])"
  using C6_patch_file_is_patch_and_newline [of example_patch]
  by (simp add: echo_option_def example_patch_def)

text \<open>
  Claim C6, as the specification words it, fails on the example patch: the file is not
  the patch text, it is one character longer. On the patch text \<open>-n\<close> the file is empty.
\<close>

theorem C6_counterexample:
  "run_line (patch_line example_patch) \<noteq> Some (''/tmp/test_patch.diff'', example_patch)
   \<and> run_line (patch_line ''-n'') = Some (''/tmp/test_patch.diff'', [])"
  by (simp add: run_patch_line echo_output_def echo_option_def example_patch_def)

end
